theory Spec2Isabelle
  imports Complex_Main "HOL-Library.Sublist" "HOL-Library.Log_Nat"
begin

section \<open>JavaScript values read by the dashboard\<close>

text \<open>
  The page \<^verbatim>\<open>src/pages/MachineStatus.tsx\<close> keeps its rows as \<^verbatim>\<open>any[]\<close>, so every
  field of a row is an arbitrary JavaScript value. The values modelled are the
  primitives a JSON payload and a missing property can give: \<^verbatim>\<open>undefined\<close>,
  \<^verbatim>\<open>null\<close>, booleans, numbers and strings. A number is an IEEE double: a finite one is
  written \<open>Num q\<close> with \<open>q\<close> its exact rational value, beside \<^verbatim>\<open>NaN\<close> and the two
  infinities; the sign of zero is not modelled. Nested objects and arrays as field
  values are not modelled.
\<close>

datatype jsnum = Num rat | NaN | PosInf | NegInf

datatype jsval =
    JUndefined
  | JNull
  | JBool bool
  | JNumber jsnum
  | JString string

text \<open>Truthiness, as \<^verbatim>\<open>||\<close>, \<^verbatim>\<open>!\<close> and the conditional operator test it.\<close>

fun ToBoolean :: "jsval \<Rightarrow> bool" where
  "ToBoolean JUndefined = False"
| "ToBoolean JNull = False"
| "ToBoolean (JBool b) = b"
| "ToBoolean (JNumber n) = (n \<noteq> Num 0 \<and> n \<noteq> NaN)"
| "ToBoolean (JString s) = (s \<noteq> [])"

text \<open>\<^verbatim>\<open>a || b\<close> and \<^verbatim>\<open>a ?? b\<close>.\<close>

definition js_or :: "jsval \<Rightarrow> jsval \<Rightarrow> jsval" where
  "js_or a b = (if ToBoolean a then a else b)"

fun js_nullish :: "jsval \<Rightarrow> jsval \<Rightarrow> jsval" where
  "js_nullish JUndefined b = b"
| "js_nullish JNull b = b"
| "js_nullish a b = a"

text \<open>\<^verbatim>\<open>a === b\<close> on primitives: equal values of one type, \<^verbatim>\<open>NaN\<close> equal to nothing.\<close>

definition strict_equals :: "jsval \<Rightarrow> jsval \<Rightarrow> bool" where
  "strict_equals a b = (a = b \<and> a \<noteq> JNumber NaN)"

text \<open>
  What the page takes from the JavaScript runtime: the clock (\<^verbatim>\<open>new Date()\<close>), the
  \<^verbatim>\<open>Date\<close> constructor on a value, \<^verbatim>\<open>toLocaleString\<close>, and the conversions between
  numbers and strings that \<^verbatim>\<open>Number(...)\<close> and \<^verbatim>\<open>+\<close> use. They are parameters of the
  model. A date is its time value, \<open>None\<close> for an invalid date. One clock reading
  serves a whole call of the normalizer.
\<close>

type_synonym js_date = "int option"

record js_runtime =
  clock :: js_date
  Date_of :: "jsval \<Rightarrow> js_date"
  toLocaleString :: "js_date \<Rightarrow> string"
  numberToString :: "jsnum \<Rightarrow> string"
  stringToNumber :: "string \<Rightarrow> jsnum"

fun ToNumber :: "js_runtime \<Rightarrow> jsval \<Rightarrow> jsnum" where
  "ToNumber rt JUndefined = NaN"
| "ToNumber rt JNull = Num 0"
| "ToNumber rt (JBool b) = (if b then Num 1 else Num 0)"
| "ToNumber rt (JNumber n) = n"
| "ToNumber rt (JString s) = stringToNumber rt s"

fun ToString :: "js_runtime \<Rightarrow> jsval \<Rightarrow> string" where
  "ToString rt JUndefined = ''undefined''"
| "ToString rt JNull = ''null''"
| "ToString rt (JBool b) = (if b then ''true'' else ''false'')"
| "ToString rt (JNumber n) = numberToString rt n"
| "ToString rt (JString s) = s"

text \<open>
  Rounding to a double (IEEE 754 binary64, round to nearest, ties to even). \<open>pow2 e\<close> is
  \<open>2\<close> to the power \<open>e\<close>; \<open>exponent q\<close> is the \<open>e\<close> with \<open>pow2 e \<le> \<bar>q\<bar> < pow2 (e + 1)\<close>;
  the spacing of the doubles around \<open>q\<close> is \<open>pow2 (e - 52)\<close>, and \<open>pow2 (- 1074)\<close> below
  the normal range; a result of magnitude \<open>pow2 1024\<close> or more overflows to an infinity.
\<close>

definition pow2 :: "int \<Rightarrow> rat" where
  "pow2 e = (if 0 \<le> e then 2 ^ nat e else 1 / 2 ^ nat (- e))"

definition round_half_even :: "rat \<Rightarrow> int" where
  "round_half_even x =
     (let f = \<lfloor>x\<rfloor>; r = x - of_int f
      in if r < 1 / 2 then f else if 1 / 2 < r then f + 1
         else if even f then f else f + 1)"

definition exponent :: "rat \<Rightarrow> int" where
  "exponent q =
     (if 1 \<le> \<bar>q\<bar> then int (floorlog 2 (nat \<lfloor>\<bar>q\<bar>\<rfloor>)) - 1
      else - int (floorlog 2 (nat (\<lceil>1 / \<bar>q\<bar>\<rceil> - 1))))"

definition round64 :: "rat \<Rightarrow> jsnum" where
  "round64 q =
     (if q = 0 then Num 0
      else let e = max (exponent q) (- 1022);
               ulp = pow2 (e - 52);
               r = of_int (round_half_even (q / ulp)) * ulp
           in if pow2 1024 \<le> \<bar>r\<bar> then (if 0 < q then PosInf else NegInf) else Num r)"

text \<open>
  \<^verbatim>\<open>+\<close> and \<^verbatim>\<open>/\<close> on numbers: the exact result of two finite operands, rounded to a
  double.
\<close>

fun num_add :: "jsnum \<Rightarrow> jsnum \<Rightarrow> jsnum" where
  "num_add (Num a) (Num b) = round64 (a + b)"
| "num_add NaN y = NaN"
| "num_add x NaN = NaN"
| "num_add PosInf NegInf = NaN"
| "num_add NegInf PosInf = NaN"
| "num_add PosInf y = PosInf"
| "num_add x PosInf = PosInf"
| "num_add NegInf y = NegInf"
| "num_add x NegInf = NegInf"

fun num_div :: "jsnum \<Rightarrow> jsnum \<Rightarrow> jsnum" where
  "num_div (Num a) (Num b) =
     (if b = 0 then (if a = 0 then NaN else if 0 < a then PosInf else NegInf)
      else round64 (a / b))"
| "num_div NaN y = NaN"
| "num_div x NaN = NaN"
| "num_div (Num a) y = Num 0"
| "num_div PosInf (Num b) = (if 0 \<le> b then PosInf else NegInf)"
| "num_div NegInf (Num b) = (if 0 \<le> b then NegInf else PosInf)"
| "num_div x y = NaN"

fun is_string :: "jsval \<Rightarrow> bool" where
  "is_string (JString s) = True"
| "is_string v = False"

fun is_number :: "jsval \<Rightarrow> bool" where
  "is_number (JNumber n) = True"
| "is_number v = False"

text \<open>\<^verbatim>\<open>a + b\<close>: concatenation when either side is a string, numeric addition otherwise.\<close>

definition js_plus :: "js_runtime \<Rightarrow> jsval \<Rightarrow> jsval \<Rightarrow> jsval" where
  "js_plus rt a b =
     (if is_string a \<or> is_string b then JString (ToString rt a @ ToString rt b)
      else JNumber (num_add (ToNumber rt a) (ToNumber rt b)))"

text \<open>\<^verbatim>\<open>a / b\<close>.\<close>

definition js_divide :: "js_runtime \<Rightarrow> jsval \<Rightarrow> jsval \<Rightarrow> jsval" where
  "js_divide rt a b = JNumber (num_div (ToNumber rt a) (ToNumber rt b))"

text \<open>\<^verbatim>\<open>Number(v)\<close>.\<close>

definition Number :: "js_runtime \<Rightarrow> jsval \<Rightarrow> jsval" where
  "Number rt v = JNumber (ToNumber rt v)"

abbreviation zero :: jsval where
  "zero \<equiv> JNumber (Num 0)"

text \<open>
  \<^verbatim>\<open>Array.from(new Set(xs))\<close>: the distinct values of \<open>xs\<close> in the order of their
  first occurrence. \<^verbatim>\<open>Set\<close> compares with SameValueZero, which on the values modelled
  is equality (\<^verbatim>\<open>NaN\<close> is the same value as \<^verbatim>\<open>NaN\<close>).
\<close>

definition Set_add :: "'a list \<Rightarrow> 'a \<Rightarrow> 'a list" where
  "Set_add acc x = (if x \<in> set acc then acc else acc @ [x])"

definition Array_from_Set :: "'a list \<Rightarrow> 'a list" where
  "Array_from_Set xs = foldl Set_add [] xs"

section \<open>The normalizer: \<^verbatim>\<open>transformMachineData\<close>\<close>

text \<open>
  A row of the backend's \<^verbatim>\<open>data\<close> array is \<^verbatim>\<open>null\<close> or an object, read through its
  properties; a property that is absent reads as \<^verbatim>\<open>undefined\<close>. Reading a property
  of \<^verbatim>\<open>null\<close> throws a \<^verbatim>\<open>TypeError\<close>. An object is the list of its properties, the
  first entry of a key being its value; a row that is a JSON number, string or boolean
  has none of the keys read here and is the empty list.
\<close>

type_synonym js_object = "(string \<times> jsval) list"

datatype raw_row = RowNull | RowObject js_object

definition get :: "js_object \<Rightarrow> string \<Rightarrow> jsval" where
  "get item k = (case map_of item k of None \<Rightarrow> JUndefined | Some v \<Rightarrow> v)"

datatype js_error = TypeError | SyntaxError | Error string

record machine_record =
  deviceId :: jsval
  timestamp :: jsval
  shift :: jsval
  design :: jsval
  count :: jsval
  efficiency :: jsval
  error1 :: jsval
  error2 :: jsval
  status :: jsval

definition transform_item :: "js_runtime \<Rightarrow> js_object \<Rightarrow> machine_record" where
  "transform_item rt item =
     (let ts = (if ToBoolean (get item ''timestamp'')
                then Date_of rt (get item ''timestamp'') else clock rt)
      in \<lparr> deviceId = js_or (get item ''device_id'') (JString ''Unknown''),
           timestamp = JString (toLocaleString rt ts),
           shift = js_or (get item ''shift'') (JString ''-''),
           design = js_or (get item ''design'') (JString ''-''),
           count = js_nullish (get item ''count'') zero,
           efficiency = js_nullish (get item ''efficiency'') zero,
           error1 = js_nullish (get item ''error1'') zero,
           error2 = js_nullish (get item ''error2'') zero,
           status = js_or (get item ''status'') (JString ''unknown'') \<rparr>)"

fun transform_row :: "js_runtime \<Rightarrow> raw_row \<Rightarrow> js_error + machine_record" where
  "transform_row rt RowNull = Inl TypeError"
| "transform_row rt (RowObject item) = Inr (transform_item rt item)"

fun transformMachineData :: "js_runtime \<Rightarrow> raw_row list \<Rightarrow> js_error + machine_record list" where
  "transformMachineData rt [] = Inr []"
| "transformMachineData rt (x # xs) =
     (case transform_row rt x of
        Inl e \<Rightarrow> Inl e
      | Inr r \<Rightarrow> (case transformMachineData rt xs of
                    Inl e \<Rightarrow> Inl e
                  | Inr rs \<Rightarrow> Inr (r # rs)))"




text \<open>The closed set of status tags of the specification.\<close>

definition StatusTag :: "jsval list" where
  "StatusTag = [JString ''running'', JString ''idle'', JString ''stopped'',
                JString ''maintenance'', JString ''unknown'']"

definition is_StatusTag :: "jsval \<Rightarrow> bool" where
  "is_StatusTag v = (v \<in> set StatusTag)"

fun nullish :: "jsval \<Rightarrow> bool" where
  "nullish JUndefined = True"
| "nullish JNull = True"
| "nullish v = False"

text \<open>
  A runtime for the concrete evaluations below: its \<^verbatim>\<open>Date\<close> reads a number as a time
  value and reads back the one string its \<^verbatim>\<open>toLocaleString\<close> writes for a valid date.
  The evaluations read no number as a string and no string as a number, so these two
  conversions are only placeholders there.
\<close>

definition sample_runtime :: js_runtime where
  "sample_runtime =
     \<lparr> clock = Some 0,
       Date_of = (\<lambda>v. case v of
                        JNumber (Num q) \<Rightarrow> Some \<lfloor>q\<rfloor>
                      | JString s \<Rightarrow> if s = ''1/1/1970, 12:00:00 AM'' then Some 0 else None
                      | _ \<Rightarrow> None),
       toLocaleString = (\<lambda>d. case d of None \<Rightarrow> ''Invalid Date''
                                 | Some t \<Rightarrow> ''1/1/1970, 12:00:00 AM''),
       numberToString = (\<lambda>n. ''0''),
       stringToNumber = (\<lambda>s. NaN) \<rparr>"

section \<open>The aggregator: \<^verbatim>\<open>buildSummary\<close>\<close>

record status_summary =
  total_machines :: nat
  running :: nat
  idle :: nat
  stopped :: nat
  maintenance :: nat

record summary =
  total_production :: jsval
  avg_efficiency :: jsval
  total_errors :: jsval
  error1_count :: jsval
  error2_count :: jsval
  status_summary :: status_summary
  designs :: "jsval list"

text \<open>
  Each \<^verbatim>\<open>data.reduce((sum, d) => ..., 0)\<close> is a left fold from \<^verbatim>\<open>0\<close>; each
  \<^verbatim>\<open>data.filter(...).length\<close> is the length of a filtered list.
\<close>

definition buildSummary :: "js_runtime \<Rightarrow> machine_record list \<Rightarrow> summary" where
  "buildSummary rt data =
     \<lparr> total_production =
         foldl (\<lambda>sum d. js_plus rt sum (js_or (count d) zero)) zero data,
       avg_efficiency =
         (if length data = 0 then zero
          else js_divide rt
                 (foldl (\<lambda>sum d. js_plus rt sum (js_or (Number rt (efficiency d)) zero)) zero data)
                 (JNumber (Num (of_nat (length data))))),
       total_errors =
         foldl (\<lambda>sum d. js_plus rt (js_plus rt sum (js_or (error1 d) zero)) (js_or (error2 d) zero))
           zero data,
       error1_count = foldl (\<lambda>sum d. js_plus rt sum (js_or (error1 d) zero)) zero data,
       error2_count = foldl (\<lambda>sum d. js_plus rt sum (js_or (error2 d) zero)) zero data,
       status_summary =
         \<lparr> total_machines = length data,
           running = length (filter (\<lambda>d. strict_equals (status d) (JString ''running'')) data),
           idle = length (filter (\<lambda>d. strict_equals (status d) (JString ''idle'')) data),
           stopped = length (filter (\<lambda>d. strict_equals (status d) (JString ''stopped'')) data),
           maintenance =
             length (filter (\<lambda>d. strict_equals (status d) (JString ''maintenance'')) data) \<rparr>,
       designs = Array_from_Set (map design data) \<rparr>"








section \<open>The page: state, filters, facet options\<close>

text \<open>
  A toast of the page, and the page itself: the component's React state, the requests
  that have been issued and not yet answered (each with the device it asked for), the
  interval timer that is armed (its period in seconds and the device its callback has
  captured), and what was shown and logged.
\<close>

record toast =
  toast_title :: string
  toast_description :: string
  toast_status :: string
  toast_duration :: nat
  toast_isClosable :: bool

record page =
  machineData :: "machine_record list"
  isLoading :: bool
  selectedMachine :: string
  selectedShift :: string
  selectedDesign :: string
  selectedStatus :: string
  lastUpdated :: js_date
  autoRefresh :: bool
  refreshInterval :: nat
  apiSummaryData :: "summary option"
  inflight :: "string list"
  timer :: "(nat \<times> string) option"
  toasts :: "toast list"
  console_errors :: "js_error list"

definition initial_page :: "js_runtime \<Rightarrow> page" where
  "initial_page rt =
     \<lparr> machineData = [], isLoading = False, selectedMachine = ''all'',
       selectedShift = ''all'', selectedDesign = ''all'', selectedStatus = ''all'',
       lastUpdated = clock rt, autoRefresh = False, refreshInterval = 30,
       apiSummaryData = None, inflight = [], timer = None, toasts = [],
       console_errors = [] \<rparr>"

text \<open>\<^verbatim>\<open>filteredData\<close>: the callback of \<^verbatim>\<open>machineData.filter\<close>, then the filter.\<close>

definition passes :: "page \<Rightarrow> machine_record \<Rightarrow> bool" where
  "passes st item =
     (if selectedMachine st \<noteq> ''all''
         \<and> \<not> strict_equals (deviceId item) (JString (selectedMachine st)) then False
      else if selectedShift st \<noteq> ''all''
         \<and> \<not> strict_equals (shift item) (JString (selectedShift st)) then False
      else if selectedDesign st \<noteq> ''all''
         \<and> \<not> strict_equals (design item) (JString (selectedDesign st)) then False
      else if selectedStatus st \<noteq> ''all''
         \<and> \<not> strict_equals (status item) (JString (selectedStatus st)) then False
      else True)"

definition filteredData :: "page \<Rightarrow> machine_record list" where
  "filteredData st = filter (passes st) (machineData st)"

text \<open>The facet options \<^verbatim>\<open>shifts\<close>, \<^verbatim>\<open>designs\<close> and \<^verbatim>\<open>availableDevices\<close>.\<close>

definition shifts :: "page \<Rightarrow> jsval list" where
  "shifts st = Array_from_Set (map shift (machineData st))"

definition designs_options :: "page \<Rightarrow> jsval list" where
  "designs_options st =
     (case apiSummaryData st of
        Some s \<Rightarrow> designs s
      | None \<Rightarrow> Array_from_Set (map design (machineData st)))"

definition availableDevices :: "page \<Rightarrow> jsval list" where
  "availableDevices st = Array_from_Set (map deviceId (machineData st))"

section \<open>Ingestion: \<^verbatim>\<open>fetchMachineData\<close>\<close>

text \<open>
  What a request can come back with: \<^verbatim>\<open>fetch\<close> rejects, or it resolves to a response
  with its \<^verbatim>\<open>ok\<close> flag and what \<^verbatim>\<open>response.json()\<close> gives: a rejection, \<^verbatim>\<open>null\<close>, or a
  value read through \<^verbatim>\<open>success\<close>, \<^verbatim>\<open>data\<close> and \<^verbatim>\<open>message\<close> (a JSON number, string or array
  reads all three as \<^verbatim>\<open>undefined\<close>). \<^verbatim>\<open>data\<close> is an array of rows or some other value.
\<close>

datatype envelope_data = DataArray "raw_row list" | DataOther jsval

datatype json_body =
    JsonRejected
  | JsonNull
  | JsonValue jsval envelope_data jsval

datatype fetch_outcome = FetchRejected | HttpResponse bool json_body

text \<open>
  The body of the \<^verbatim>\<open>try\<close> block up to the transformed rows; \<open>Inl\<close> is what is thrown
  (the page's own \<^verbatim>\<open>Error\<close>s with their messages; a rejected \<^verbatim>\<open>fetch\<close> and a property
  read on \<^verbatim>\<open>null\<close> are a \<^verbatim>\<open>TypeError\<close>, a body that is not JSON a \<^verbatim>\<open>SyntaxError\<close>).
\<close>

fun isArray :: "envelope_data \<Rightarrow> bool" where
  "isArray (DataArray rows) = True"
| "isArray (DataOther v) = False"

fun rows_of :: "envelope_data \<Rightarrow> raw_row list" where
  "rows_of (DataArray rows) = rows"
| "rows_of (DataOther v) = []"

definition ingest :: "js_runtime \<Rightarrow> fetch_outcome \<Rightarrow> js_error + machine_record list" where
  "ingest rt outcome =
     (case outcome of
        FetchRejected \<Rightarrow> Inl TypeError
      | HttpResponse ok body \<Rightarrow>
          if \<not> ok then Inl (Error ''Failed to fetch machine data'')
          else (case body of
                  JsonRejected \<Rightarrow> Inl SyntaxError
                | JsonNull \<Rightarrow> Inl TypeError
                | JsonValue success dat message \<Rightarrow>
                    if \<not> ToBoolean success \<or> \<not> isArray dat
                    then Inl (Error (ToString rt
                           (js_or message (JString ''Unexpected response from Machine API''))))
                    else transformMachineData rt (rows_of dat)))"

definition failure_toast :: toast where
  "failure_toast =
     \<lparr> toast_title = ''Error'', toast_description = ''Failed to fetch machine data.'',
       toast_status = ''warning'', toast_duration = 3000, toast_isClosable = True \<rparr>"

text \<open>
  The call of \<^verbatim>\<open>fetchMachineData(deviceId)\<close> up to its first \<^verbatim>\<open>await\<close>, and the rest of
  it once the request has come back: the \<^verbatim>\<open>try\<close> block applies the rows, the \<^verbatim>\<open>catch\<close>
  block logs and shows the toast, the \<^verbatim>\<open>finally\<close> block clears the loading flag.
\<close>

definition fetch_start :: "string \<Rightarrow> page \<Rightarrow> page" where
  "fetch_start dev st = st\<lparr> isLoading := True, inflight := inflight st @ [dev] \<rparr>"

definition fetch_complete :: "js_runtime \<Rightarrow> fetch_outcome \<Rightarrow> page \<Rightarrow> page" where
  "fetch_complete rt outcome st =
     (case ingest rt outcome of
        Inr transformedData \<Rightarrow>
          st\<lparr> machineData := transformedData,
              apiSummaryData := Some (buildSummary rt transformedData),
              lastUpdated := clock rt,
              isLoading := False \<rparr>
      | Inl e \<Rightarrow>
          st\<lparr> console_errors := console_errors st @ [e],
              toasts := toasts st @ [failure_toast],
              isLoading := False \<rparr>)"

text \<open>
  The auto-refresh effect: whenever \<^verbatim>\<open>autoRefresh\<close>, \<^verbatim>\<open>refreshInterval\<close> or
  \<^verbatim>\<open>selectedMachine\<close> changes, its cleanup clears the interval and the effect arms a
  new one if \<^verbatim>\<open>autoRefresh\<close> is on; the callback keeps the device selected then.
\<close>

definition rearm :: "page \<Rightarrow> page" where
  "rearm st =
     st\<lparr> timer := (if autoRefresh st then Some (refreshInterval st, selectedMachine st)
                   else None) \<rparr>"

text \<open>
  What can happen to a mounted page. Selecting a device that differs from the current
  one runs both effects (a request for the new device, the timer armed anew); the other
  three facets only set their state. A response answers the \<open>k\<close>-th request in flight;
  requests may be answered in any order.
\<close>

datatype event =
    SelectMachine string
  | SelectShift string
  | SelectDesign string
  | SelectStatus string
  | ToggleAutoRefresh
  | SetRefreshInterval nat
  | TimerTick
  | RefreshNow
  | Response nat fetch_outcome

fun step :: "js_runtime \<Rightarrow> event \<Rightarrow> page \<Rightarrow> page" where
  "step rt (SelectMachine v) st =
     (if v = selectedMachine st then st
      else rearm (fetch_start v (st\<lparr> selectedMachine := v \<rparr>)))"
| "step rt (SelectShift v) st = st\<lparr> selectedShift := v \<rparr>"
| "step rt (SelectDesign v) st = st\<lparr> selectedDesign := v \<rparr>"
| "step rt (SelectStatus v) st = st\<lparr> selectedStatus := v \<rparr>"
| "step rt ToggleAutoRefresh st = rearm (st\<lparr> autoRefresh := \<not> autoRefresh st \<rparr>)"
| "step rt (SetRefreshInterval n) st =
     (if n = refreshInterval st then st else rearm (st\<lparr> refreshInterval := n \<rparr>))"
| "step rt TimerTick st =
     (case timer st of
        None \<Rightarrow> st
      | Some (period, dev) \<Rightarrow> (fetch_start dev st)\<lparr> lastUpdated := clock rt \<rparr>)"
| "step rt RefreshNow st = (fetch_start (selectedMachine st) st)\<lparr> lastUpdated := clock rt \<rparr>"
| "step rt (Response k outcome) st =
     (if k < length (inflight st)
      then fetch_complete rt outcome
             (st\<lparr> inflight := take k (inflight st) @ drop (Suc k) (inflight st) \<rparr>)
      else st)"

text \<open>Mounting runs the first effect once; then the events happen in order.\<close>

definition mount :: "js_runtime \<Rightarrow> page" where
  "mount rt = fetch_start ''all'' (initial_page rt)"

definition run :: "js_runtime \<Rightarrow> event list \<Rightarrow> page \<Rightarrow> page" where
  "run rt evs st = foldl (\<lambda>s e. step rt e s) st evs"

text \<open>
  The failures the specification lists: a network error, a response that is not a
  success, a body that is no envelope, \<^verbatim>\<open>success: false\<close>, and \<^verbatim>\<open>data\<close> that is not an
  array.
\<close>

fun ingestion_failure :: "fetch_outcome \<Rightarrow> bool" where
  "ingestion_failure FetchRejected = True"
| "ingestion_failure (HttpResponse ok JsonRejected) = True"
| "ingestion_failure (HttpResponse ok JsonNull) = True"
| "ingestion_failure (HttpResponse ok (JsonValue success dat message)) =
     (\<not> ok \<or> \<not> ToBoolean success \<or> \<not> isArray dat)"

section \<open>Example data\<close>

text \<open>
  The two records of the specification's aggregation example (they give no other
  fields), and the three records of its filter example.
\<close>

definition example_records :: "machine_record list" where
  "example_records =
     [\<lparr> deviceId = JUndefined, timestamp = JUndefined, shift = JUndefined,
        design = JUndefined, count = JNumber (Num 10), efficiency = JNumber (Num 90),
        error1 = JNumber (Num 1), error2 = JNumber (Num 0), status = JString ''running'' \<rparr>,
      \<lparr> deviceId = JUndefined, timestamp = JUndefined, shift = JUndefined,
        design = JUndefined, count = JNumber (Num 5), efficiency = JNumber (Num 70),
        error1 = JNumber (Num 0), error2 = JNumber (Num 2), status = JString ''idle'' \<rparr>]"


definition device_shift :: "string \<Rightarrow> string \<Rightarrow> machine_record" where
  "device_shift d s =
     \<lparr> deviceId = JString d, timestamp = JUndefined, shift = JString s,
       design = JUndefined, count = JUndefined, efficiency = JUndefined,
       error1 = JUndefined, error2 = JUndefined, status = JUndefined \<rparr>"

definition filter_example :: page where
  "filter_example =
     (initial_page sample_runtime)
       \<lparr> machineData := [device_shift ''D1'' ''A'', device_shift ''D1'' ''B'',
                         device_shift ''D2'' ''A''] \<rparr>"

text \<open>
  A successful response with one row of device \<^verbatim>\<open>D2\<close>, and three runs of the page:
  the first request is answered after another device has been selected; a timer
  request is answered after auto-refresh has been turned off; the page has loaded one
  row and a manual refresh is in flight.
\<close>

definition rows_D2 :: fetch_outcome where
  "rows_D2 =
     HttpResponse True
       (JsonValue (JBool True) (DataArray [RowObject [(''device_id'', JString ''D2'')]]) JUndefined)"

definition superseded_run :: page where
  "superseded_run =
     run sample_runtime [SelectMachine ''D1'', Response 0 rows_D2] (mount sample_runtime)"

definition stopped_run :: page where
  "stopped_run =
     run sample_runtime [ToggleAutoRefresh, TimerTick, ToggleAutoRefresh, Response 1 rows_D2]
       (mount sample_runtime)"

definition loaded_page :: page where
  "loaded_page = run sample_runtime [Response 0 rows_D2, RefreshNow] (mount sample_runtime)"

section \<open>Properties of rounding\<close>
















section \<open>Properties of the normalizer\<close>

lemma get_Cons: "get ((k, v) # item) k' = (if k' = k then v else get item k')"
  by (simp add: get_def)

lemma get_Nil: "get [] k = JUndefined"
  by (simp add: get_def)

lemma js_nullish_eq: "js_nullish v d = (if nullish v then d else v)"
  by (cases v) simp_all

lemma js_or_truthy: "ToBoolean v \<Longrightarrow> js_or v d = v"
  by (simp add: js_or_def)

lemma js_or_falsy: "\<not> ToBoolean v \<Longrightarrow> js_or v d = d"
  by (simp add: js_or_def)




lemma transform_item_fields:
  "deviceId (transform_item rt item) = js_or (get item ''device_id'') (JString ''Unknown'')"
  "timestamp (transform_item rt item) =
     JString (toLocaleString rt (if ToBoolean (get item ''timestamp'')
                                 then Date_of rt (get item ''timestamp'') else clock rt))"
  "shift (transform_item rt item) = js_or (get item ''shift'') (JString ''-'')"
  "design (transform_item rt item) = js_or (get item ''design'') (JString ''-'')"
  "count (transform_item rt item) = js_nullish (get item ''count'') zero"
  "efficiency (transform_item rt item) = js_nullish (get item ''efficiency'') zero"
  "error1 (transform_item rt item) = js_nullish (get item ''error1'') zero"
  "error2 (transform_item rt item) = js_nullish (get item ''error2'') zero"
  "status (transform_item rt item) = js_or (get item ''status'') (JString ''unknown'')"
  by (simp_all add: transform_item_def Let_def)

text \<open>
  C1, as stated: the normalized status of every row is one of the five status tags.
  It fails: the source status \<^verbatim>\<open>"Running"\<close> is truthy, so \<^verbatim>\<open>item.status || "unknown"\<close>
  keeps it as it is.
\<close>

theorem status_Running_kept:
  "status (transform_item sample_runtime [(''status'', JString ''Running'')]) = JString ''Running''
   \<and> \<not> is_StatusTag (status (transform_item sample_runtime [(''status'', JString ''Running'')]))"
  by (simp add: transform_item_fields get_Cons js_or_def is_StatusTag_def StatusTag_def)

text \<open>
  C1, amended: the normalizer keeps a truthy source status as it is and maps a falsy one
  (absent, \<^verbatim>\<open>null\<close>, the empty string, \<^verbatim>\<open>0\<close>, \<^verbatim>\<open>false\<close>, \<^verbatim>\<open>NaN\<close>) to \<^verbatim>\<open>unknown\<close>; so the
  normalized status is one of the five status tags exactly when the source status is
  falsy or already one of the five lowercase tags.
\<close>

theorem status_normalized:
  "(ToBoolean (get item ''status'') \<longrightarrow>
      status (transform_item rt item) = get item ''status'')
   \<and> (\<not> ToBoolean (get item ''status'') \<longrightarrow>
      status (transform_item rt item) = JString ''unknown'')
   \<and> (is_StatusTag (status (transform_item rt item))
      \<longleftrightarrow> (\<not> ToBoolean (get item ''status'') \<or> is_StatusTag (get item ''status'')))"
  by (auto simp add: transform_item_fields js_or_def is_StatusTag_def StatusTag_def)

theorem status_normalized_witness:
  "ToBoolean (JString ''idle'')
   \<and> status (transform_item sample_runtime [(''status'', JString ''idle'')]) = JString ''idle''
   \<and> \<not> ToBoolean (JString [])
   \<and> status (transform_item sample_runtime [(''status'', JString [])]) = JString ''unknown''
   \<and> is_StatusTag (status (transform_item sample_runtime [(''status'', JString [])]))"
  using status_normalized [of "[(''status'', JString ''idle'')]" sample_runtime]
        status_normalized [of "[(''status'', JString [])]" sample_runtime]
  by (simp add: get_Cons is_StatusTag_def StatusTag_def)




text \<open>
  C3, as stated: the normalized count, efficiency, error1 and error2 are numbers, a
  non-numeric source value being replaced by 0. It fails: \<^verbatim>\<open>item.count ?? 0\<close> replaces
  only \<^verbatim>\<open>null\<close> and \<^verbatim>\<open>undefined\<close>, so the string \<^verbatim>\<open>"abc"\<close> is kept.
\<close>

theorem count_abc_kept:
  "count (transform_item sample_runtime [(''count'', JString ''abc'')]) = JString ''abc''
   \<and> \<not> is_number (count (transform_item sample_runtime [(''count'', JString ''abc'')]))"
  by (simp add: transform_item_fields get_Cons)

text \<open>
  C3, amended: in each of count, efficiency, error1 and error2 an absent or \<^verbatim>\<open>null\<close>
  source value is replaced by 0 and every other source value, numeric or not, is kept
  as it is; so the normalized field is a number exactly when the source value is absent,
  \<^verbatim>\<open>null\<close> or a number. Nothing is raised as an error.
\<close>

theorem numeric_fields_normalized:
  "count (transform_item rt item)
      = (if nullish (get item ''count'') then zero else get item ''count'')
   \<and> efficiency (transform_item rt item)
      = (if nullish (get item ''efficiency'') then zero else get item ''efficiency'')
   \<and> error1 (transform_item rt item)
      = (if nullish (get item ''error1'') then zero else get item ''error1'')
   \<and> error2 (transform_item rt item)
      = (if nullish (get item ''error2'') then zero else get item ''error2'')
   \<and> (is_number (count (transform_item rt item))
      \<longleftrightarrow> (nullish (get item ''count'') \<or> is_number (get item ''count'')))
   \<and> (is_number (efficiency (transform_item rt item))
      \<longleftrightarrow> (nullish (get item ''efficiency'') \<or> is_number (get item ''efficiency'')))
   \<and> (is_number (error1 (transform_item rt item))
      \<longleftrightarrow> (nullish (get item ''error1'') \<or> is_number (get item ''error1'')))
   \<and> (is_number (error2 (transform_item rt item))
      \<longleftrightarrow> (nullish (get item ''error2'') \<or> is_number (get item ''error2'')))"
  by (simp add: transform_item_fields js_nullish_eq)

text \<open>
  C10: the empty string is treated as an absent field in the string fields: a row whose
  device_id, shift, design or status is \<^verbatim>\<open>""\<close> (or absent) normalizes to \<^verbatim>\<open>"Unknown"\<close>,
  \<^verbatim>\<open>"-"\<close>, \<^verbatim>\<open>"-"\<close> and \<^verbatim>\<open>"unknown"\<close>. The numeric fields replace only \<^verbatim>\<open>null\<close> and
  \<^verbatim>\<open>undefined\<close> by 0: any other value is kept, and a source value 0 stays 0.
\<close>

theorem empty_string_as_absent:
  "(get item ''device_id'' = JString [] \<or> get item ''device_id'' = JUndefined
      \<longrightarrow> deviceId (transform_item rt item) = JString ''Unknown'')
   \<and> (get item ''shift'' = JString [] \<or> get item ''shift'' = JUndefined
      \<longrightarrow> shift (transform_item rt item) = JString ''-'')
   \<and> (get item ''design'' = JString [] \<or> get item ''design'' = JUndefined
      \<longrightarrow> design (transform_item rt item) = JString ''-'')
   \<and> (get item ''status'' = JString [] \<or> get item ''status'' = JUndefined
      \<longrightarrow> status (transform_item rt item) = JString ''unknown'')
   \<and> (\<forall>k f. (k, f) \<in> set [(''count'', count), (''efficiency'', efficiency),
                           (''error1'', error1), (''error2'', error2)] \<longrightarrow>
        (get item k = JUndefined \<or> get item k = JNull \<longrightarrow> f (transform_item rt item) = zero)
        \<and> (get item k \<noteq> JUndefined \<and> get item k \<noteq> JNull
             \<longrightarrow> f (transform_item rt item) = get item k)
        \<and> (get item k = zero \<longrightarrow> f (transform_item rt item) = zero))"
proof -
  have strings:
    "get item ''device_id'' = JString [] \<or> get item ''device_id'' = JUndefined
       \<longrightarrow> deviceId (transform_item rt item) = JString ''Unknown''"
    "get item ''shift'' = JString [] \<or> get item ''shift'' = JUndefined
       \<longrightarrow> shift (transform_item rt item) = JString ''-''"
    "get item ''design'' = JString [] \<or> get item ''design'' = JUndefined
       \<longrightarrow> design (transform_item rt item) = JString ''-''"
    "get item ''status'' = JString [] \<or> get item ''status'' = JUndefined
       \<longrightarrow> status (transform_item rt item) = JString ''unknown''"
    by (auto simp add: transform_item_fields js_or_def)
  have numbers: "(get item k = JUndefined \<or> get item k = JNull \<longrightarrow> f (transform_item rt item) = zero)
        \<and> (get item k \<noteq> JUndefined \<and> get item k \<noteq> JNull
             \<longrightarrow> f (transform_item rt item) = get item k)
        \<and> (get item k = zero \<longrightarrow> f (transform_item rt item) = zero)"
    if "(k, f) \<in> set [(''count'', count), (''efficiency'', efficiency),
                           (''error1'', error1), (''error2'', error2)]" for k f
  proof -
    from that have "f (transform_item rt item) = js_nullish (get item k) zero"
      by (auto simp add: transform_item_fields)
    then show ?thesis
      by (cases "get item k") simp_all
  qed
  from strings numbers show ?thesis by blast
qed

theorem empty_string_as_absent_witness:
  "transform_item sample_runtime
     [(''device_id'', JString []), (''shift'', JString []), (''design'', JString []),
      (''status'', JString []), (''count'', zero), (''efficiency'', JNull),
      (''error2'', JString ''7'')]
   = \<lparr> deviceId = JString ''Unknown'', timestamp = JString ''1/1/1970, 12:00:00 AM'',
       shift = JString ''-'', design = JString ''-'', count = zero, efficiency = zero,
       error1 = zero, error2 = JString ''7'', status = JString ''unknown'' \<rparr>"
proof -
  let ?item = "[(''device_id'', JString []), (''shift'', JString []), (''design'', JString []),
      (''status'', JString []), (''count'', zero), (''efficiency'', JNull),
      (''error2'', JString ''7'')]"
  note h = empty_string_as_absent [of ?item sample_runtime]
  have "deviceId (transform_item sample_runtime ?item) = JString ''Unknown''"
       "shift (transform_item sample_runtime ?item) = JString ''-''"
       "design (transform_item sample_runtime ?item) = JString ''-''"
       "status (transform_item sample_runtime ?item) = JString ''unknown''"
    using h by (simp_all add: get_Cons)
  moreover have "count (transform_item sample_runtime ?item) = zero"
       "efficiency (transform_item sample_runtime ?item) = zero"
       "error1 (transform_item sample_runtime ?item) = zero"
       "error2 (transform_item sample_runtime ?item) = JString ''7''"
    using h by (simp_all add: get_Cons get_Nil)
  moreover have "timestamp (transform_item sample_runtime ?item) = JString ''1/1/1970, 12:00:00 AM''"
    by (simp add: transform_item_fields get_Cons get_Nil sample_runtime_def)
  ultimately show ?thesis
    by (cases "transform_item sample_runtime ?item") simp
qed

section \<open>Properties of the aggregator\<close>













lemma strict_equals_JString: "strict_equals v (JString s) = (v = JString s)"
  by (auto simp add: strict_equals_def)

lemma four_buckets:
  assumes "distinct [a, b, c, e]"
  shows "length (filter (\<lambda>d. f d = a) xs) + length (filter (\<lambda>d. f d = b) xs)
       + length (filter (\<lambda>d. f d = c) xs) + length (filter (\<lambda>d. f d = e) xs)
       = length (filter (\<lambda>d. f d \<in> {a, b, c, e}) xs)"
  using assms by (induction xs) auto

lemma length_filter_all: "(length (filter P xs) = length xs) = (\<forall>x\<in>set xs. P x)"
proof (induction xs)
  case Nil
  then show ?case by simp
next
  case (Cons x xs)
  have "length (filter P xs) \<noteq> Suc (length xs)"
    using length_filter_le [of P xs] by arith
  with Cons show ?case by auto
qed

text \<open>
  C5: in the status summary, total is the number of records; running, idle, stopped and
  maintenance are the numbers of records with exactly that status; their sum is at most
  total, and it is total exactly when every record's status is one of the four tags (a
  record with status \<^verbatim>\<open>unknown\<close> counts in total and in no bucket).
\<close>

theorem status_summary_counts:
  "(let s = status_summary (buildSummary rt data) in
      total_machines s = length data
      \<and> running s = length (filter (\<lambda>d. status d = JString ''running'') data)
      \<and> idle s = length (filter (\<lambda>d. status d = JString ''idle'') data)
      \<and> stopped s = length (filter (\<lambda>d. status d = JString ''stopped'') data)
      \<and> maintenance s = length (filter (\<lambda>d. status d = JString ''maintenance'') data)
      \<and> running s + idle s + stopped s + maintenance s \<le> total_machines s
      \<and> (running s + idle s + stopped s + maintenance s = total_machines s
         \<longleftrightarrow> (\<forall>d\<in>set data. status d \<in> {JString ''running'', JString ''idle'',
                                          JString ''stopped'', JString ''maintenance''})))"
proof -
  define s where "s = status_summary (buildSummary rt data)"
  have counts: "total_machines s = length data"
      "running s = length (filter (\<lambda>d. status d = JString ''running'') data)"
      "idle s = length (filter (\<lambda>d. status d = JString ''idle'') data)"
      "stopped s = length (filter (\<lambda>d. status d = JString ''stopped'') data)"
      "maintenance s = length (filter (\<lambda>d. status d = JString ''maintenance'') data)"
    by (simp_all add: s_def buildSummary_def strict_equals_JString)
  have "distinct [JString ''running'', JString ''idle'', JString ''stopped'',
                  JString ''maintenance'']"
    by simp
  from four_buckets [OF this, of status data]
  have sum: "running s + idle s + stopped s + maintenance s
      = length (filter (\<lambda>d. status d \<in> {JString ''running'', JString ''idle'',
                                          JString ''stopped'', JString ''maintenance''}) data)"
    by (simp only: counts)
  have le: "running s + idle s + stopped s + maintenance s \<le> total_machines s"
    unfolding sum counts(1) by (rule length_filter_le)
  have eq: "running s + idle s + stopped s + maintenance s = total_machines s
         \<longleftrightarrow> (\<forall>d\<in>set data. status d \<in> {JString ''running'', JString ''idle'',
                                          JString ''stopped'', JString ''maintenance''})"
    unfolding sum counts(1) by (rule length_filter_all)
  from counts le eq show ?thesis
    unfolding s_def Let_def by blast
qed

text \<open>
  The counts of the specification's two records, and of the same two with a third
  record of status \<^verbatim>\<open>unknown\<close>.
\<close>

theorem status_summary_counts_example:
  "status_summary (buildSummary sample_runtime example_records)
     = \<lparr> total_machines = 2, running = 1, idle = 1, stopped = 0, maintenance = 0 \<rparr>
   \<and> status_summary (buildSummary sample_runtime
        (example_records @ [(device_shift ''D3'' ''A'')\<lparr> status := JString ''unknown'' \<rparr>]))
     = \<lparr> total_machines = 3, running = 1, idle = 1, stopped = 0, maintenance = 0 \<rparr>"
proof -
  let ?more = "example_records @ [(device_shift ''D3'' ''A'')\<lparr> status := JString ''unknown'' \<rparr>]"
  from status_summary_counts [of sample_runtime example_records]
  have "status_summary (buildSummary sample_runtime example_records)
     = \<lparr> total_machines = 2, running = 1, idle = 1, stopped = 0, maintenance = 0 \<rparr>"
    by (cases "status_summary (buildSummary sample_runtime example_records)")
       (simp add: Let_def example_records_def)
  moreover from status_summary_counts [of sample_runtime ?more]
  have "status_summary (buildSummary sample_runtime ?more)
     = \<lparr> total_machines = 3, running = 1, idle = 1, stopped = 0, maintenance = 0 \<rparr>"
    by (cases "status_summary (buildSummary sample_runtime ?more)")
       (simp add: Let_def example_records_def device_shift_def)
  ultimately show ?thesis by simp
qed

section \<open>Properties of the filter and of the facet options\<close>

text \<open>
  C6: \<^verbatim>\<open>filteredData\<close> is exactly the records that, for each of the four facets whose
  selection is not \<^verbatim>\<open>"all"\<close>, have that selection as the value of the facet's field, the
  four conditions joined by \<open>and\<close>; it keeps the order of the input.
\<close>

theorem filteredData_spec:
  "filteredData st =
     filter (\<lambda>r. (selectedMachine st = ''all'' \<or> deviceId r = JString (selectedMachine st))
                \<and> (selectedShift st = ''all'' \<or> shift r = JString (selectedShift st))
                \<and> (selectedDesign st = ''all'' \<or> design r = JString (selectedDesign st))
                \<and> (selectedStatus st = ''all'' \<or> status r = JString (selectedStatus st)))
       (machineData st)
   \<and> subseq (filteredData st) (machineData st)"
proof -
  have "passes st r =
      ((selectedMachine st = ''all'' \<or> deviceId r = JString (selectedMachine st))
       \<and> (selectedShift st = ''all'' \<or> shift r = JString (selectedShift st))
       \<and> (selectedDesign st = ''all'' \<or> design r = JString (selectedDesign st))
       \<and> (selectedStatus st = ''all'' \<or> status r = JString (selectedStatus st)))" for r
    by (auto simp add: passes_def strict_equals_JString)
  then have "passes st =
      (\<lambda>r. (selectedMachine st = ''all'' \<or> deviceId r = JString (selectedMachine st))
          \<and> (selectedShift st = ''all'' \<or> shift r = JString (selectedShift st))
          \<and> (selectedDesign st = ''all'' \<or> design r = JString (selectedDesign st))
          \<and> (selectedStatus st = ''all'' \<or> status r = JString (selectedStatus st)))"
    by (rule ext)
  then have "filteredData st =
     filter (\<lambda>r. (selectedMachine st = ''all'' \<or> deviceId r = JString (selectedMachine st))
                \<and> (selectedShift st = ''all'' \<or> shift r = JString (selectedShift st))
                \<and> (selectedDesign st = ''all'' \<or> design r = JString (selectedDesign st))
                \<and> (selectedStatus st = ''all'' \<or> status r = JString (selectedStatus st)))
       (machineData st)"
    by (simp add: filteredData_def)
  moreover have "subseq (filteredData st) (machineData st)"
    by (simp add: filteredData_def)
  ultimately show ?thesis by simp
qed

text \<open>
  The specification's three records: device \<^verbatim>\<open>D1\<close> with every shift gives the first two
  in their order, device \<^verbatim>\<open>D1\<close> with shift \<^verbatim>\<open>A\<close> only the first.
\<close>

theorem filteredData_example:
  "filteredData (filter_example\<lparr> selectedMachine := ''D1'' \<rparr>)
     = [device_shift ''D1'' ''A'', device_shift ''D1'' ''B'']
   \<and> filteredData (filter_example\<lparr> selectedMachine := ''D1'', selectedShift := ''A'' \<rparr>)
     = [device_shift ''D1'' ''A'']"
  using filteredData_spec [of "filter_example\<lparr> selectedMachine := ''D1'' \<rparr>"]
        filteredData_spec [of "filter_example\<lparr> selectedMachine := ''D1'', selectedShift := ''A'' \<rparr>"]
  by (simp add: filter_example_def initial_page_def device_shift_def)

lemma Array_from_Set_snoc: "Array_from_Set (xs @ [x]) = Set_add (Array_from_Set xs) x"
  by (simp add: Array_from_Set_def)

text \<open>A \<^verbatim>\<open>Set\<close> keeps each value where it first occurred.\<close>

lemma Array_from_Set_first_occurrence: "Array_from_Set xs = rev (remdups (rev xs))"
proof (induction xs rule: rev_induct)
  case Nil
  then show ?case by (simp add: Array_from_Set_def)
next
  case (snoc x xs)
  then show ?case by (simp add: Array_from_Set_snoc Set_add_def)
qed

text \<open>
  C7: the shift options are the distinct shift values of the unfiltered records, in the
  order of their first occurrence; selecting a status leaves them as they are, so they
  are the same under any two status selections.
\<close>

theorem shifts_independent_of_status:
  "shifts (step rt (SelectStatus a) st) = shifts (step rt (SelectStatus b) st)
   \<and> shifts (step rt (SelectStatus a) st) = shifts st
   \<and> shifts st = rev (remdups (rev (map shift (machineData st))))
   \<and> distinct (shifts st)
   \<and> set (shifts st) = shift ` set (machineData st)"
  by (simp add: shifts_def Array_from_Set_first_occurrence)

section \<open>Properties of ingestion and refresh\<close>

lemma isl_ingest_failure: "ingestion_failure outcome \<Longrightarrow> isl (ingest rt outcome)"
  by (cases outcome rule: ingestion_failure.cases) (auto simp add: ingest_def)

lemma fetch_complete_Inl:
  "ingest rt outcome = Inl e \<Longrightarrow>
   fetch_complete rt outcome st =
     st\<lparr> console_errors := console_errors st @ [e], toasts := toasts st @ [failure_toast],
         isLoading := False \<rparr>"
  by (simp add: fetch_complete_def)

lemma fetch_complete_Inr:
  "ingest rt outcome = Inr rows \<Longrightarrow>
   fetch_complete rt outcome st =
     st\<lparr> machineData := rows, apiSummaryData := Some (buildSummary rt rows),
         lastUpdated := clock rt, isLoading := False \<rparr>"
  by (simp add: fetch_complete_def)

lemma ingest_rows_D2:
  "ingest sample_runtime rows_D2 = Inr [transform_item sample_runtime [(''device_id'', JString ''D2'')]]"
  by (simp add: ingest_def rows_D2_def)

lemma mount_fields:
  "machineData (mount rt) = []" "inflight (mount rt) = [''all'']"
  "selectedMachine (mount rt) = ''all''" "autoRefresh (mount rt) = False"
  "timer (mount rt) = None" "toasts (mount rt) = []" "apiSummaryData (mount rt) = None"
  "refreshInterval (mount rt) = 30"
  by (simp_all add: mount_def fetch_start_def initial_page_def)

lemma loaded_page_fields:
  "machineData loaded_page = [transform_item sample_runtime [(''device_id'', JString ''D2'')]]"
  "inflight loaded_page = [''all'']"
  "toasts loaded_page = []"
  by (simp_all add: loaded_page_def run_def mount_fields fetch_complete_Inr [OF ingest_rows_D2]
        fetch_start_def)

text \<open>
  C8: a failure (the fetch rejected, a response that is not a success, no envelope,
  \<^verbatim>\<open>success: false\<close>, or \<^verbatim>\<open>data\<close> that is not an array) throws inside the \<^verbatim>\<open>try\<close> block; and
  whenever the \<^verbatim>\<open>try\<close> block of a request in flight throws, the \<^verbatim>\<open>catch\<close> branch leaves the
  records and the summary exactly as they were, the timer and the selections too, and
  shows the failure as a warning toast; nothing is thrown out of \<^verbatim>\<open>fetchMachineData\<close>.
\<close>

theorem ingestion_failure_keeps_state:
  "(ingestion_failure outcome \<longrightarrow> isl (ingest rt outcome))
   \<and> (isl (ingest rt outcome) \<and> k < length (inflight st) \<longrightarrow>
        machineData (step rt (Response k outcome) st) = machineData st
      \<and> apiSummaryData (step rt (Response k outcome) st) = apiSummaryData st
      \<and> toasts (step rt (Response k outcome) st) = toasts st @ [failure_toast]
      \<and> isLoading (step rt (Response k outcome) st) = False
      \<and> timer (step rt (Response k outcome) st) = timer st
      \<and> autoRefresh (step rt (Response k outcome) st) = autoRefresh st
      \<and> refreshInterval (step rt (Response k outcome) st) = refreshInterval st
      \<and> selectedMachine (step rt (Response k outcome) st) = selectedMachine st)"
proof (intro conjI impI)
  assume "ingestion_failure outcome"
  then show "isl (ingest rt outcome)" by (rule isl_ingest_failure)
next
  assume thrown: "isl (ingest rt outcome) \<and> k < length (inflight st)"
  then obtain e where e: "ingest rt outcome = Inl e"
    by (cases "ingest rt outcome") auto
  let ?st' = "step rt (Response k outcome) st"
  from thrown e have after: "?st' =
      (st\<lparr> inflight := take k (inflight st) @ drop (Suc k) (inflight st) \<rparr>)
        \<lparr> console_errors := console_errors st @ [e], toasts := toasts st @ [failure_toast],
          isLoading := False \<rparr>"
    by (simp add: fetch_complete_Inl)
  show "machineData ?st' = machineData st" by (subst after) simp
  show "apiSummaryData ?st' = apiSummaryData st" by (subst after) simp
  show "toasts ?st' = toasts st @ [failure_toast]" by (subst after) simp
  show "isLoading ?st' = False" by (subst after) simp
  show "timer ?st' = timer st" by (subst after) simp
  show "autoRefresh ?st' = autoRefresh st" by (subst after) simp
  show "refreshInterval ?st' = refreshInterval st" by (subst after) simp
  show "selectedMachine ?st' = selectedMachine st" by (subst after) simp
qed

text \<open>The four kinds of failure, each on the page that shows the row of \<^verbatim>\<open>D2\<close>.\<close>

theorem ingestion_failure_keeps_state_witness:
  "map deviceId (machineData (step sample_runtime (Response 0 FetchRejected) loaded_page))
      = [JString ''D2'']
   \<and> machineData (step sample_runtime (Response 0 (HttpResponse False JsonNull)) loaded_page)
      = machineData loaded_page
   \<and> apiSummaryData (step sample_runtime
        (Response 0 (HttpResponse True (JsonValue (JBool False) (DataArray []) JUndefined)))
        loaded_page) = apiSummaryData loaded_page
   \<and> toasts (step sample_runtime
        (Response 0 (HttpResponse True (JsonValue (JBool True) (DataOther JNull) JUndefined)))
        loaded_page) = [failure_toast]"
proof -
  have k: "0 < length (inflight loaded_page)" by (simp add: loaded_page_fields)
  have "map deviceId (machineData (step sample_runtime (Response 0 FetchRejected) loaded_page))
      = [JString ''D2'']"
    using ingestion_failure_keeps_state [of FetchRejected sample_runtime 0 loaded_page] k
    by (simp add: loaded_page_fields transform_item_fields get_Cons js_or_def)
  moreover have "machineData (step sample_runtime (Response 0 (HttpResponse False JsonNull)) loaded_page)
      = machineData loaded_page"
    using ingestion_failure_keeps_state [of "HttpResponse False JsonNull" sample_runtime 0 loaded_page] k
    by simp
  moreover have "apiSummaryData (step sample_runtime
        (Response 0 (HttpResponse True (JsonValue (JBool False) (DataArray []) JUndefined)))
        loaded_page) = apiSummaryData loaded_page"
    using ingestion_failure_keeps_state
        [of "HttpResponse True (JsonValue (JBool False) (DataArray []) JUndefined)" sample_runtime
          0 loaded_page] k
    by simp
  moreover have "toasts (step sample_runtime
        (Response 0 (HttpResponse True (JsonValue (JBool True) (DataOther JNull) JUndefined)))
        loaded_page) = [failure_toast]"
    using ingestion_failure_keeps_state
        [of "HttpResponse True (JsonValue (JBool True) (DataOther JNull) JUndefined)" sample_runtime
          0 loaded_page] k
    by (simp add: loaded_page_fields)
  ultimately show ?thesis by blast
qed

text \<open>
  C9, as stated: a result that completes after the device filter changed, or after the
  scheduler was stopped, is discarded. It fails both ways: \<^verbatim>\<open>fetchMachineData\<close> applies
  its rows when they arrive and checks nothing first. The request for all devices,
  answered after \<^verbatim>\<open>D1\<close> was selected, puts the row of \<^verbatim>\<open>D2\<close> and its summary on the page;
  so does the timer's request answered after auto-refresh was turned off.
\<close>

theorem late_result_applied:
  "selectedMachine superseded_run = ''D1''
   \<and> inflight superseded_run = [''D1'']
   \<and> map deviceId (machineData superseded_run) = [JString ''D2'']
   \<and> map_option (\<lambda>s. total_machines (status_summary s)) (apiSummaryData superseded_run) = Some 1
   \<and> machineData (run sample_runtime [SelectMachine ''D1''] (mount sample_runtime)) = []
   \<and> apiSummaryData (run sample_runtime [SelectMachine ''D1''] (mount sample_runtime)) = None
   \<and> autoRefresh stopped_run = False
   \<and> timer stopped_run = None
   \<and> map deviceId (machineData stopped_run) = [JString ''D2'']
   \<and> map_option (\<lambda>s. total_machines (status_summary s)) (apiSummaryData stopped_run) = Some 1
   \<and> machineData (run sample_runtime [ToggleAutoRefresh, TimerTick, ToggleAutoRefresh]
        (mount sample_runtime)) = []
   \<and> apiSummaryData (run sample_runtime [ToggleAutoRefresh, TimerTick, ToggleAutoRefresh]
        (mount sample_runtime)) = None"
  by (simp add: superseded_run_def stopped_run_def run_def mount_fields rearm_def fetch_start_def
        fetch_complete_Inr [OF ingest_rows_D2] transform_item_fields get_Cons js_or_def
        buildSummary_def)

text \<open>
  C9, amended: there is no late-result suppression. Whenever a request in flight
  completes successfully, its rows and their summary replace the visible records and
  summary, whatever device is selected then and whether or not auto-refresh is on; the
  selections and the timer are left as they are. Selecting another device issues a
  request for it and arms the timer, if auto-refresh is on, for the new device; turning
  auto-refresh off disarms the timer and cancels no request, so that only no further
  timer request is issued.
\<close>

theorem late_result_always_applied:
  "(k < length (inflight st) \<and> ingest rt outcome = Inr rows \<longrightarrow>
      machineData (step rt (Response k outcome) st) = rows
      \<and> apiSummaryData (step rt (Response k outcome) st) = Some (buildSummary rt rows)
      \<and> selectedMachine (step rt (Response k outcome) st) = selectedMachine st
      \<and> autoRefresh (step rt (Response k outcome) st) = autoRefresh st
      \<and> timer (step rt (Response k outcome) st) = timer st)
   \<and> (v \<noteq> selectedMachine st \<longrightarrow>
      inflight (step rt (SelectMachine v) st) = inflight st @ [v]
      \<and> timer (step rt (SelectMachine v) st)
          = (if autoRefresh st then Some (refreshInterval st, v) else None)
      \<and> machineData (step rt (SelectMachine v) st) = machineData st)
   \<and> (autoRefresh st \<longrightarrow>
      timer (step rt ToggleAutoRefresh st) = None
      \<and> inflight (step rt ToggleAutoRefresh st) = inflight st
      \<and> step rt TimerTick (step rt ToggleAutoRefresh st) = step rt ToggleAutoRefresh st)"
  by (simp add: fetch_complete_Inr rearm_def fetch_start_def)

theorem late_result_always_applied_witness:
  "machineData (step sample_runtime (Response 0 rows_D2)
      (step sample_runtime (SelectMachine ''D1'') (mount sample_runtime)))
     = [transform_item sample_runtime [(''device_id'', JString ''D2'')]]
   \<and> selectedMachine (step sample_runtime (Response 0 rows_D2)
      (step sample_runtime (SelectMachine ''D1'') (mount sample_runtime))) = ''D1''
   \<and> inflight (step sample_runtime (SelectMachine ''D1'') (mount sample_runtime)) = [''all'', ''D1'']
   \<and> timer (step sample_runtime ToggleAutoRefresh
        (step sample_runtime ToggleAutoRefresh (mount sample_runtime))) = None"
proof -
  let ?st = "step sample_runtime (SelectMachine ''D1'') (mount sample_runtime)"
  let ?on = "step sample_runtime ToggleAutoRefresh (mount sample_runtime)"
  have sel: "''D1'' \<noteq> selectedMachine (mount sample_runtime)" by (simp add: mount_fields)
  have on: "autoRefresh ?on" by (simp add: mount_fields rearm_def)
  have infl: "inflight ?st = [''all'', ''D1'']"
    using late_result_always_applied [of 0 "mount sample_runtime" sample_runtime rows_D2 "[]" "''D1''"] sel
    by (simp add: mount_fields)
  then have k: "0 < length (inflight ?st)" by simp
  have "machineData (step sample_runtime (Response 0 rows_D2) ?st)
      = [transform_item sample_runtime [(''device_id'', JString ''D2'')]]
     \<and> selectedMachine (step sample_runtime (Response 0 rows_D2) ?st) = ''D1''"
    using late_result_always_applied [of 0 ?st sample_runtime rows_D2
        "[transform_item sample_runtime [(''device_id'', JString ''D2'')]]" "''D1''"]
      k ingest_rows_D2
    by (simp add: mount_fields fetch_start_def rearm_def)
  moreover have "timer (step sample_runtime ToggleAutoRefresh ?on) = None"
    using late_result_always_applied [of 0 ?on sample_runtime rows_D2 "[]" "''D1''"] on
    by simp
  ultimately show ?thesis using infl by simp
qed

end
